theory Spec2Isabelle
  imports Complex_Main "HOL-Library.Word"
begin

section \<open>Dense and sparse matrices\<close>

text \<open>
  The header works with Eigen types: \<^verbatim>\<open>Matrix\<close> (a dense, column-major matrix of
  doubles), \<^verbatim>\<open>Eigen::VectorXd\<close> (a dense column vector) and \<^verbatim>\<open>SparseMatrix\<close>.
  A dense matrix is modelled as the list of its columns and a sparse matrix as the list
  of its rows, each row written out in full; entries are real numbers, so every statement
  below is about exact arithmetic and says nothing on floating-point roundoff.
  Eigen requires matching shapes for every sum, difference and product (a mismatch is an
  assertion failure or undefined behaviour); the operations below are total and cut
  operands to the shorter one, and theorems that need well-shaped operands say so.
\<close>

type_synonym Vector = "real list"

type_synonym Matrix = "Vector list"

type_synonym SparseMatrix = "Vector list"

type_synonym DiagonalMatrix = "real list"

definition dot :: "Vector \<Rightarrow> Vector \<Rightarrow> real" where
  "dot x y = sum_list (map2 (*) x y)"

definition vadd :: "Vector \<Rightarrow> Vector \<Rightarrow> Vector" where
  "vadd x y = map2 (+) x y"

definition vsub :: "Vector \<Rightarrow> Vector \<Rightarrow> Vector" where
  "vsub x y = map2 (-) x y"

definition madd :: "Matrix \<Rightarrow> Matrix \<Rightarrow> Matrix" where
  "madd X Z = map2 vadd X Z"

definition msub :: "Matrix \<Rightarrow> Matrix \<Rightarrow> Matrix" where
  "msub X Z = map2 vsub X Z"

text \<open>Sparse matrix times dense vector, and sparse matrix times dense matrix (column by column).\<close>

definition smv :: "SparseMatrix \<Rightarrow> Vector \<Rightarrow> Vector" where
  "smv S x = map (\<lambda>row. dot row x) S"

definition smm :: "SparseMatrix \<Rightarrow> Matrix \<Rightarrow> Matrix" where
  "smm S X = map (smv S) X"

section \<open>The problem instance\<close>

text \<open>
  \<^verbatim>\<open>Formulation\<close> and \<^verbatim>\<open>Preconditioner\<close> are declared in \<^verbatim>\<open>SESync_types.h\<close>, which is not
  among the sources; the header names the values \<^verbatim>\<open>Simplified\<close> (the translation-implicit
  form, the constructor's default), \<^verbatim>\<open>Explicit\<close> and \<^verbatim>\<open>IncompleteCholesky\<close>, the spec lists
  the preconditioners as none, Jacobi and incomplete factorization.
\<close>

datatype Formulation = Simplified | Explicit

datatype Preconditioner = None_Preconditioner | Jacobi | IncompleteCholesky

text \<open>
  \<^verbatim>\<open>StiefelProduct\<close> is declared in \<^verbatim>\<open>StiefelProduct.h\<close>, not among the sources.
  Modelled from the spec: a product of \<open>sp_n\<close> Stiefel factors, each the set of
  \<open>sp_p \<times> sp_k\<close> matrices with orthonormal columns.
\<close>

record StiefelProduct =
  sp_k :: "32 word"
  sp_n :: "32 word"
  sp_p :: "32 word"

text \<open>
  The private fields of \<^verbatim>\<open>class SESyncProblem\<close>, in the order of the header.
  \<^verbatim>\<open>unsigned int\<close> is a 32-bit word. The Cholesky factorization \<open>L\<close> is an object of the
  external solver; only \<^verbatim>\<open>L.solve\<close> is used, so the field holds that function. \<open>QR\<close> and
  \<open>iChol\<close> are raw pointers, \<^verbatim>\<open>nullptr\<close> being \<open>None\<close>; of the QR factorization only
  \<^verbatim>\<open>QR->solve\<close> on a single column is used.
\<close>

record SESyncProblem =
  form :: Formulation
  n :: "32 word"
  m :: "32 word"
  d :: "32 word"
  r :: "32 word"
  A :: SparseMatrix
  B1 :: SparseMatrix
  B2 :: SparseMatrix
  B3 :: SparseMatrix
  M :: SparseMatrix
  LGrho :: SparseMatrix
  Ared_SqrtOmega :: SparseMatrix
  SqrtOmega_AredT :: SparseMatrix
  SqrtOmega_T :: SparseMatrix
  TT_SqrtOmega :: SparseMatrix
  L :: "Matrix \<Rightarrow> Matrix"
  QR :: "(Vector \<Rightarrow> Vector) option"
  use_Cholesky :: bool
  preconditioner :: Preconditioner
  JacobiPrecon :: DiagonalMatrix
  iChol :: "(Vector \<Rightarrow> Vector) option"
  SP :: StiefelProduct

subsection \<open>Constructors and accessors\<close>

text \<open>
  \<^verbatim>\<open>SESyncProblem() {}\<close>: the default member initializers give \<open>n = m = d = r = 0\<close>,
  \<open>QR = nullptr\<close> and \<open>iChol = nullptr\<close>; the Eigen matrices are default-constructed,
  that is empty. \<open>form\<close>, \<open>use_Cholesky\<close> and \<open>preconditioner\<close> have no initializer and
  are left indeterminate, and the default states of the solver object \<open>L\<close> and of the
  manifold \<open>SP\<close> belong to classes outside the sources: these five are parameters.
\<close>

definition SESyncProblem_default ::
  "Formulation \<Rightarrow> bool \<Rightarrow> Preconditioner \<Rightarrow> (Matrix \<Rightarrow> Matrix) \<Rightarrow> StiefelProduct \<Rightarrow> SESyncProblem"
where
  "SESyncProblem_default form0 chol0 precon0 L0 SP0 =
    \<lparr> form = form0, n = 0, m = 0, d = 0, r = 0,
      A = [], B1 = [], B2 = [], B3 = [], M = [], LGrho = [],
      Ared_SqrtOmega = [], SqrtOmega_AredT = [], SqrtOmega_T = [], TT_SqrtOmega = [],
      L = L0, QR = None, use_Cholesky = chol0, preconditioner = precon0,
      JacobiPrecon = [], iChol = None, SP = SP0 \<rparr>"

definition formulation :: "SESyncProblem \<Rightarrow> Formulation" where
  "formulation p = form p"

definition num_poses :: "SESyncProblem \<Rightarrow> 32 word" where
  "num_poses p = n p"

definition num_measurements :: "SESyncProblem \<Rightarrow> 32 word" where
  "num_measurements p = m p"

definition dimension :: "SESyncProblem \<Rightarrow> 32 word" where
  "dimension p = d p"

definition relaxation_rank :: "SESyncProblem \<Rightarrow> 32 word" where
  "relaxation_rank p = r p"

subsection \<open>The orthogonal projection\<close>

text \<open>
  The QR branch of \<^verbatim>\<open>Pi_product\<close>:
  \<^verbatim>\<open>for (unsigned int c = 0; c < X.cols(); c++)
    PiX.col(c) = X.col(c) - SqrtOmega_AredT * QR->solve(X.col(c));\<close>
  The counter is a 32-bit word compared with the 64-bit column count, so on a matrix of
  \<open>2 ^ 32\<close> or more columns it wraps around and the loop never ends; dereferencing a
  null \<open>QR\<close> does not return either. Both are the value \<open>None\<close>.
\<close>

partial_function (option) Pi_product_QR_loop ::
  "SESyncProblem \<Rightarrow> Matrix \<Rightarrow> 32 word \<Rightarrow> Matrix \<Rightarrow> Matrix option"
where
  "Pi_product_QR_loop p X c PiX =
    (if unat c < length X
     then (case QR p of
             None \<Rightarrow> None
           | Some solve \<Rightarrow>
               Pi_product_QR_loop p X (c + 1)
                 (PiX[unat c := vsub (X ! unat c) (smv (SqrtOmega_AredT p) (solve (X ! unat c)))]))
     else Some PiX)"

text \<open>
  \<^verbatim>\<open>Pi_product(X)\<close>: with \<open>use_Cholesky\<close> it is
  \<^verbatim>\<open>X - SqrtOmega_AredT * L.solve(Ared_SqrtOmega * X)\<close>, otherwise the loop above started
  on a copy of \<open>X\<close>.
\<close>

definition Pi_product :: "SESyncProblem \<Rightarrow> Matrix \<Rightarrow> Matrix option" where
  "Pi_product p X =
    (if use_Cholesky p
     then Some (msub X (smm (SqrtOmega_AredT p) (L p (smm (Ared_SqrtOmega p) X))))
     else Pi_product_QR_loop p X 0 X)"

text \<open>\<^verbatim>\<open>Q_product(X)\<close>: \<^verbatim>\<open>LGrho * X + TT_SqrtOmega * Pi_product(SqrtOmega_T * X)\<close>.\<close>

definition Q_product :: "SESyncProblem \<Rightarrow> Matrix \<Rightarrow> Matrix option" where
  "Q_product p X =
    (case Pi_product p (smm (SqrtOmega_T p) X) of
       None \<Rightarrow> None
     | Some PiTX \<Rightarrow> Some (madd (smm (LGrho p) X) (smm (TT_SqrtOmega p) PiTX)))"

subsection \<open>What the external solvers are assumed to do\<close>


text \<open>A dense matrix of \<open>k\<close> rows: every column has \<open>k\<close> entries.\<close>

definition has_rows :: "nat \<Rightarrow> Matrix \<Rightarrow> bool" where
  "has_rows k X = list_all (\<lambda>x. length x = k) X"





section \<open>The manifold\<close>

text \<open>
  The manifold operations are declared in the header and implemented in
  \<^verbatim>\<open>SESyncProblem.cpp\<close> and \<^verbatim>\<open>StiefelProduct.cpp\<close>, neither among the sources. A point
  \<open>Y\<close> is a dense \<open>r \<times> (n d)\<close> matrix, read as \<open>n\<close> blocks of \<open>d\<close> columns.
\<close>

text \<open>Block \<open>i\<close> of a matrix cut into blocks of \<open>k\<close> columns.\<close>

definition block :: "nat \<Rightarrow> nat \<Rightarrow> Matrix \<Rightarrow> Matrix" where
  "block k i X = take k (drop (i * k) X)"

text \<open>\<open>mtm Y V\<close> is the dense product \<open>Y\<^sup>T V\<close>: entry \<open>(a, b)\<close> is column \<open>a\<close> of \<open>Y\<close> times column \<open>b\<close> of \<open>V\<close>.\<close>

definition mtm :: "Matrix \<Rightarrow> Matrix \<Rightarrow> Matrix" where
  "mtm Y V = map (\<lambda>v. map (\<lambda>y. dot y v) Y) V"

text \<open>The transpose of a matrix of \<open>k\<close> rows, and the symmetric part \<open>(P + P\<^sup>T) / 2\<close> of a square matrix.\<close>

definition mtranspose :: "nat \<Rightarrow> Matrix \<Rightarrow> Matrix" where
  "mtranspose k P = map (\<lambda>a. map (\<lambda>col. col ! a) P) [0..<k]"

definition msym :: "Matrix \<Rightarrow> Matrix" where
  "msym P = map2 (map2 (\<lambda>x y. (x + y) / 2)) P (mtranspose (length P) P)"

text \<open>Dense matrix of \<open>k\<close> rows times vector, and times matrix.\<close>

definition mv :: "nat \<Rightarrow> Matrix \<Rightarrow> Vector \<Rightarrow> Vector" where
  "mv k X s = map (\<lambda>i. dot (map (\<lambda>col. col ! i) X) s) [0..<k]"

definition mm :: "nat \<Rightarrow> Matrix \<Rightarrow> Matrix \<Rightarrow> Matrix" where
  "mm k X S = map (mv k X) S"

definition mident :: "nat \<Rightarrow> Matrix" where
  "mident k = map (\<lambda>b. map (\<lambda>a. if a = b then 1 else 0) [0..<k]) [0..<k]"

text \<open>A dense matrix of \<open>k\<close> rows and \<open>c\<close> columns.\<close>

definition has_shape :: "nat \<Rightarrow> nat \<Rightarrow> Matrix \<Rightarrow> bool" where
  "has_shape k c X \<longleftrightarrow> length X = c \<and> has_rows k X"

text \<open>
  Modelled from the spec: the body of \<^verbatim>\<open>tangent_space_projection\<close> is missing. Section
  4.1: it projects an arbitrary \<open>r \<times> (n d)\<close> matrix \<open>V\<close> onto the tangent space at \<open>Y\<close>
  block by block; for each block of \<open>d\<close> columns it subtracts the symmetric part of
  \<open>block\<^sup>T V\<close> applied on the right, that is \<open>V\<^sub>i - Y\<^sub>i sym(Y\<^sub>i\<^sup>T V\<^sub>i)\<close>.
\<close>

definition tangent_block :: "nat \<Rightarrow> Matrix \<Rightarrow> Matrix \<Rightarrow> Matrix" where
  "tangent_block k Yi Vi = msub Vi (mm k Yi (msym (mtm Yi Vi)))"

definition tangent_space_projection :: "SESyncProblem \<Rightarrow> Matrix \<Rightarrow> Matrix \<Rightarrow> Matrix" where
  "tangent_space_projection p Y V =
    concat (map (\<lambda>i. tangent_block (unat (r p)) (block (unat (d p)) i Y) (block (unat (d p)) i V))
      [0..<unat (n p)])"

text \<open>
  A feasible point: an \<open>r \<times> (n d)\<close> matrix each of whose blocks \<open>B\<close> has orthonormal
  columns, \<open>B\<^sup>T B = I\<close>.
\<close>

definition feasible :: "SESyncProblem \<Rightarrow> Matrix \<Rightarrow> bool" where
  "feasible p Y \<longleftrightarrow>
    has_shape (unat (r p)) (unat (n p) * unat (d p)) Y
    \<and> list_all (\<lambda>i. mtm (block (unat (d p)) i Y) (block (unat (d p)) i Y) = mident (unat (d p)))
        [0..<unat (n p)]"

section \<open>Small instances\<close>

text \<open>
  Three poses in the plane at \<open>(0,0)\<close>, \<open>(1,0)\<close> and \<open>(0,1)\<close>, all with the identity
  rotation, and the noiseless unit-weight measurements \<open>0 \<rightarrow> 1\<close>, \<open>1 \<rightarrow> 2\<close>, \<open>2 \<rightarrow> 0\<close>.
  The reduced incidence matrix drops the last pose; its Gram matrix is
  \<open>[[2, -1], [-1, 2]]\<close>, with inverse \<open>[[2, 1], [1, 2]] / 3\<close>.
\<close>

definition cycle3_L :: "Matrix \<Rightarrow> Matrix" where
  "cycle3_L B = map (\<lambda>b. [(2 * b ! 0 + b ! 1) / 3, (b ! 0 + 2 * b ! 1) / 3]) B"

definition cycle3_QR :: "Vector \<Rightarrow> Vector" where
  "cycle3_QR x = [(2 * x ! 2 - x ! 0 - x ! 1) / 3, (x ! 0 - 2 * x ! 1 + x ! 2) / 3]"

definition cycle3 :: SESyncProblem where
  "cycle3 =
    \<lparr> form = Simplified, n = 3, m = 3, d = 2, r = 2,
      A = [[-1, 0, 1], [1, -1, 0], [0, 1, -1]],
      B1 = [], B2 = [], B3 = [], M = [],
      LGrho = [[2, 0, -1, 0, -1, 0], [0, 2, 0, -1, 0, -1], [-1, 0, 2, 0, -1, 0],
               [0, -1, 0, 2, 0, -1], [-1, 0, -1, 0, 2, 0], [0, -1, 0, -1, 0, 2]],
      Ared_SqrtOmega = [[-1, 0, 1], [1, -1, 0]],
      SqrtOmega_AredT = [[-1, 1], [0, -1], [1, 0]],
      SqrtOmega_T = [[-1, 0, 0, 0, 0, 0], [0, 0, 1, -1, 0, 0], [0, 0, 0, 0, 0, 1]],
      TT_SqrtOmega = [[-1, 0, 0], [0, 0, 0], [0, 1, 0], [0, -1, 0], [0, 0, 0], [0, 0, 1]],
      L = cycle3_L, QR = Some cycle3_QR, use_Cholesky = True,
      preconditioner = IncompleteCholesky, JacobiPrecon = [], iChol = None,
      SP = \<lparr> sp_k = 2, sp_n = 3, sp_p = 2 \<rparr> \<rparr>"

text \<open>
  The same three poses at relaxation rank 3, a feasible point \<open>stiefel3_Y\<close>, an ambient
  matrix \<open>stiefel3_V\<close> and its projection \<open>stiefel3_W\<close>.
\<close>

definition stiefel3 :: SESyncProblem where
  "stiefel3 = cycle3\<lparr>r := 3\<rparr>"

definition stiefel3_Y :: Matrix where
  "stiefel3_Y = [[1, 0, 0], [0, 1, 0], [0, 1, 0], [0, 0, 1], [3 / 5, 4 / 5, 0], [- 4 / 5, 3 / 5, 0]]"

definition stiefel3_V :: Matrix where
  "stiefel3_V = [[1, 2, 3], [4, 5, 6], [1, 0, 2], [0, 3, 1], [5, 0, 1], [0, 5, 2]]"

definition stiefel3_W :: Matrix where
  "stiefel3_W = [[0, - 1, 3], [1, 0, 6], [1, 0, - 1 / 2], [0, 1 / 2, 0], [16 / 5, - 12 / 5, 1], [12 / 5, 16 / 5, 2]]"

section \<open>Default construction\<close>

text \<open>
  C10. On a default-constructed problem, whatever the indeterminate members hold,
  \<open>num_poses\<close>, \<open>num_measurements\<close>, \<open>dimension\<close> and \<open>relaxation_rank\<close> all return 0.
  The accessors are total functions of the instance, so every call returns.
\<close>

theorem default_constructed_accessors_zero:
  "num_poses (SESyncProblem_default form0 chol0 precon0 L0 SP0) = 0
   \<and> num_measurements (SESyncProblem_default form0 chol0 precon0 L0 SP0) = 0
   \<and> dimension (SESyncProblem_default form0 chol0 precon0 L0 SP0) = 0
   \<and> relaxation_rank (SESyncProblem_default form0 chol0 precon0 L0 SP0) = 0"
  by (simp add: SESyncProblem_default_def num_poses_def num_measurements_def
      dimension_def relaxation_rank_def)

section \<open>The two branches of the orthogonal projection\<close>






text \<open>
  The two ways the QR branch does not return: a null \<open>QR\<close> with a column to do, and a
  matrix of \<open>2 ^ 32\<close> or more columns, on which the 32-bit counter never reaches the column
  count. The second is by the induction rule of the loop as a partial function.
\<close>

lemma Pi_product_QR_loop_null:
  "QR p = None \<Longrightarrow> unat c < length X \<Longrightarrow> Pi_product_QR_loop p X c PiX = None"
  by (subst Pi_product_QR_loop.simps) simp















section \<open>Idempotence of the tangent space projection\<close>

lemma dot_sum_nth: "length x = length y \<Longrightarrow> dot x y = (\<Sum>i<length x. x ! i * y ! i)"
  by (simp add: dot_def sum_list_sum_nth atLeast0LessThan)

lemma has_rows_nth: "has_rows k X \<Longrightarrow> c < length X \<Longrightarrow> length (X ! c) = k"
  by (simp add: has_rows_def list_all_length)

lemma length_mv: "length (mv k X s) = k"
  by (simp add: mv_def)

lemma mv_nth:
  assumes "i < k" and "length s = length X"
  shows "mv k X s ! i = (\<Sum>c<length X. X ! c ! i * s ! c)"
  using assms by (simp add: mv_def dot_sum_nth)

lemma dot_mv:
  assumes "has_rows k Y" and "length y = k" and "length s = length Y"
  shows "dot y (mv k Y s) = (\<Sum>c<length Y. s ! c * dot y (Y ! c))"
proof -
  have "dot y (mv k Y s) = (\<Sum>i<k. y ! i * (\<Sum>c<length Y. Y ! c ! i * s ! c))"
    using assms by (simp add: dot_sum_nth length_mv mv_nth)
  also have "\<dots> = (\<Sum>i<k. \<Sum>c<length Y. s ! c * (y ! i * Y ! c ! i))"
    by (simp add: sum_distrib_left mult_ac)
  also have "\<dots> = (\<Sum>c<length Y. \<Sum>i<k. s ! c * (y ! i * Y ! c ! i))"
    by (rule sum.swap)
  also have "\<dots> = (\<Sum>c<length Y. s ! c * dot y (Y ! c))"
    using assms by (simp add: dot_sum_nth has_rows_nth sum_distrib_left)
  finally show ?thesis .
qed

lemma dot_vsub:
  assumes "length y = k" and "length v = k" and "length w = k"
  shows "dot y (vsub v w) = dot y v - dot y w"
  using assms by (simp add: dot_sum_nth vsub_def right_diff_distrib sum_subtractf)

lemma mtm_nth: "a < length Y \<Longrightarrow> b < length V \<Longrightarrow> mtm Y V ! b ! a = dot (Y ! a) (V ! b)"
  by (simp add: mtm_def)

lemma length_mtm: "length (mtm Y V) = length V"
  by (simp add: mtm_def)

lemma has_rows_mtm: "has_rows (length Y) (mtm Y V)"
  by (simp add: has_rows_def mtm_def list_all_iff)

lemma length_msym: "has_rows (length P) P \<Longrightarrow> length (msym P) = length P"
  by (simp add: msym_def mtranspose_def)

lemma msym_nth:
  assumes "has_rows (length P) P" and "a < length P" and "b < length P"
  shows "msym P ! b ! a = (P ! b ! a + P ! a ! b) / 2" and "length (msym P ! b) = length P"
  using assms by (simp_all add: msym_def mtranspose_def has_rows_nth)

lemma has_rows_msym: "has_rows (length P) P \<Longrightarrow> has_rows (length P) (msym P)"
  by (simp add: has_rows_def list_all_length length_msym msym_nth [unfolded has_rows_def list_all_length])


lemma vsub_zero: "length w = k \<Longrightarrow> vsub w (replicate k 0) = w"
  by (simp add: vsub_def list_eq_iff_nth_eq)

lemma mv_zero: "length X = c \<Longrightarrow> mv k X (replicate c 0) = replicate k 0"
  by (simp add: list_eq_iff_nth_eq length_mv mv_nth)

lemma length_tangent_block:
  assumes "length Yi = c" and "length Vi = c"
  shows "length (tangent_block k Yi Vi) = c"
  using assms by (simp add: tangent_block_def msub_def mm_def length_msym has_rows_mtm [of Yi Vi, unfolded assms(1)] length_mtm)

lemma tangent_block_nth:
  assumes "length Yi = c" and "length Vi = c" and "b < c"
  shows "tangent_block k Yi Vi ! b = vsub (Vi ! b) (mv k Yi (msym (mtm Yi Vi) ! b))"
proof -
  have "has_rows (length (mtm Yi Vi)) (mtm Yi Vi)"
    using has_rows_mtm [of Yi Vi] assms by (simp add: length_mtm)
  then have "length (msym (mtm Yi Vi)) = c"
    using assms by (simp add: length_msym length_mtm)
  then show ?thesis using assms by (simp add: tangent_block_def msub_def mm_def)
qed

lemma has_rows_tangent_block:
  assumes "length Yi = c" and "has_shape k c Vi"
  shows "has_shape k c (tangent_block k Yi Vi)"
proof -
  from assms have len: "length Vi = c" and rows: "has_rows k Vi" by (simp_all add: has_shape_def)
  have "length (tangent_block k Yi Vi ! b) = k" if "b < c" for b
    using that tangent_block_nth [OF assms(1) len that] has_rows_nth [OF rows, of b] len
    by (simp add: vsub_def length_mv)
  then show ?thesis
    using length_tangent_block [OF assms(1) len]
    by (simp add: has_shape_def has_rows_def list_all_length)
qed

lemma mident_nth: "a < k \<Longrightarrow> b < k \<Longrightarrow> mident k ! b ! a = (if a = b then 1 else 0)"
  by (simp add: mident_def)

text \<open>
  At a block \<open>Y\<^sub>i\<close> with orthonormal columns, \<open>Y\<^sub>i\<^sup>T W\<close> is skew-symmetric for the projected
  block \<open>W\<close>: it is the skew part of \<open>Y\<^sub>i\<^sup>T V\<^sub>i\<close>.
\<close>

lemma mtm_tangent_block:
  assumes Y: "has_shape k c Yi" and V: "has_shape k c Vi"
    and orth: "mtm Yi Yi = mident c" and a: "a < c" and b: "b < c"
  shows "mtm Yi (tangent_block k Yi Vi) ! b ! a
    = (mtm Yi Vi ! b ! a - mtm Yi Vi ! a ! b) / 2"
proof -
  from Y V have lenY: "length Yi = c" and rowsY: "has_rows k Yi"
    and lenV: "length Vi = c" and rowsV: "has_rows k Vi"
    by (simp_all add: has_shape_def)
  let ?P = "mtm Yi Vi"
  let ?S = "msym ?P"
  have sq: "has_rows (length ?P) ?P" "length ?P = c"
    using has_rows_mtm [of Yi Vi] lenY lenV by (simp_all add: length_mtm)
  have Sb: "length (?S ! b) = c" and Sba: "?S ! b ! a = (?P ! b ! a + ?P ! a ! b) / 2"
    using msym_nth [OF sq(1), of a b] a b sq(2) by simp_all
  have ya: "length (Yi ! a) = k" and vb: "length (Vi ! b) = k"
    using has_rows_nth [OF rowsY] has_rows_nth [OF rowsV] a b lenY lenV by simp_all
  have orth': "dot (Yi ! a) (Yi ! e) = (if a = e then 1 else 0)" if "e < c" for e
    using mtm_nth [of a Yi e Yi] mident_nth [of a c e] orth a that lenY by simp
  have "mtm Yi (tangent_block k Yi Vi) ! b ! a = dot (Yi ! a) (tangent_block k Yi Vi ! b)"
    using a b lenY length_tangent_block [OF lenY lenV] by (simp add: mtm_nth)
  also have "\<dots> = dot (Yi ! a) (vsub (Vi ! b) (mv k Yi (?S ! b)))"
    using tangent_block_nth [OF lenY lenV b] by simp
  also have "\<dots> = dot (Yi ! a) (Vi ! b) - dot (Yi ! a) (mv k Yi (?S ! b))"
    using ya vb by (simp add: dot_vsub [where k = k] length_mv)
  also have "dot (Yi ! a) (mv k Yi (?S ! b)) = (\<Sum>e<c. ?S ! b ! e * dot (Yi ! a) (Yi ! e))"
    using dot_mv [OF rowsY ya, of "?S ! b"] Sb lenY by simp
  also have "\<dots> = (\<Sum>e<c. ?S ! b ! e * (if a = e then 1 else 0))"
    using orth' by simp
  also have "\<dots> = (\<Sum>e<c. if e = a then ?S ! b ! e else 0)"
    by (intro sum.cong) auto
  also have "\<dots> = ?S ! b ! a"
    using a by (simp add: sum.delta)
  finally show ?thesis
    using a b lenY lenV Sba by (simp add: mtm_nth field_simps)
qed

lemma msym_mtm_tangent_block:
  assumes Y: "has_shape k c Yi" and V: "has_shape k c Vi" and orth: "mtm Yi Yi = mident c"
  shows "msym (mtm Yi (tangent_block k Yi Vi)) = replicate c (replicate c 0)"
proof -
  from Y V have lenY: "length Yi = c" and lenV: "length Vi = c" by (simp_all add: has_shape_def)
  let ?W = "tangent_block k Yi Vi"
  let ?P = "mtm Yi ?W"
  have lenW: "length ?W = c" using length_tangent_block [OF lenY lenV] .
  have sq: "has_rows (length ?P) ?P" "length ?P = c"
    using has_rows_mtm [of Yi ?W] lenY lenW by (simp_all add: length_mtm)
  have "length (msym ?P) = c" using sq by (simp add: length_msym)
  moreover have "msym ?P ! b = replicate c 0" if b: "b < c" for b
  proof (rule nth_equalityI)
    show "length (msym ?P ! b) = length (replicate c (0::real))"
      using msym_nth(2) [OF sq(1), of b b] b sq(2) by simp
  next
    fix a assume "a < length (msym ?P ! b)"
    then have a: "a < c" using msym_nth(2) [OF sq(1), of b b] b sq(2) by simp
    have "msym ?P ! b ! a = (?P ! b ! a + ?P ! a ! b) / 2"
      using msym_nth(1) [OF sq(1), of a b] a b sq(2) by simp
    also have "\<dots> = 0"
      using mtm_tangent_block [OF Y V orth a b] mtm_tangent_block [OF Y V orth b a] by simp
    finally show "msym ?P ! b ! a = replicate c 0 ! a" using a by simp
  qed
  ultimately show ?thesis by (simp add: list_eq_iff_nth_eq)
qed

lemma tangent_block_idem:
  assumes Y: "has_shape k c Yi" and V: "has_shape k c Vi" and orth: "mtm Yi Yi = mident c"
  shows "tangent_block k Yi (tangent_block k Yi Vi) = tangent_block k Yi Vi"
proof -
  from Y have lenY: "length Yi = c" by (simp add: has_shape_def)
  let ?W = "tangent_block k Yi Vi"
  have W: "has_shape k c ?W" using has_rows_tangent_block [OF lenY V] .
  then have lenW: "length ?W = c" and rowsW: "has_rows k ?W" by (simp_all add: has_shape_def)
  have "tangent_block k Yi ?W = msub ?W (mm k Yi (replicate c (replicate c 0)))"
    using msym_mtm_tangent_block [OF Y V orth] by (simp add: tangent_block_def)
  also have "\<dots> = ?W"
    using lenW lenY has_rows_nth [OF rowsW]
    by (simp add: msub_def mm_def mv_zero list_eq_iff_nth_eq vsub_zero)
  finally show ?thesis .
qed


lemma length_concat_blocks:
  "(\<And>j. j < nn \<Longrightarrow> length (f j) = k) \<Longrightarrow> length (concat (map f [0..<nn])) = nn * k"
  by (induction nn) simp_all

lemma block_concat:
  assumes "\<And>j. j < nn \<Longrightarrow> length (f j) = k" and "i < nn"
  shows "block k i (concat (map f [0..<nn])) = f i"
  using assms
proof (induction nn)
  case 0
  then show ?case by simp
next
  case (Suc nn)
  have len: "length (concat (map f [0..<nn])) = nn * k"
    using Suc.prems(1) by (intro length_concat_blocks) simp
  show ?case
  proof (cases "i = nn")
    case True
    then show ?thesis using len Suc.prems(1) [of nn] by (simp add: block_def)
  next
    case False
    with Suc.prems have i: "i < nn" by simp
    then have "Suc i \<le> nn" by simp
    then have "Suc i * k \<le> nn * k" by (rule mult_le_mono1)
    then have le: "i * k + k \<le> nn * k" by simp
    have "block k i (concat (map f [0..<nn])) = f i"
      using Suc.IH [OF _ i] Suc.prems(1) by simp
    moreover have "block k i (concat (map f [0..<Suc nn])) = block k i (concat (map f [0..<nn]))"
      using len le by (simp add: block_def)
    ultimately show ?thesis by simp
  qed
qed

lemma has_shape_block:
  assumes "has_shape k (nn * c) X" and "i < nn"
  shows "has_shape k c (block c i X)"
proof -
  from assms(2) have "Suc i \<le> nn" by simp
  then have "Suc i * c \<le> nn * c" by (rule mult_le_mono1)
  then have "c \<le> nn * c - i * c" by simp
  then have "length (block c i X) = c"
    using assms(1) by (simp add: block_def has_shape_def)
  moreover have "set (block c i X) \<subseteq> set X"
    unfolding block_def by (meson set_take_subset set_drop_subset subset_trans)
  ultimately show ?thesis
    using assms(1) by (auto simp: has_shape_def has_rows_def list_all_iff)
qed

text \<open>
  C5. At a feasible point \<open>Y\<close>, for every ambient matrix \<open>V\<close> of the shape of \<open>Y\<close>,
  projecting twice onto the tangent space at \<open>Y\<close> is projecting once.
\<close>

theorem tangent_space_projection_idempotent:
  assumes "feasible p Y"
    and "has_shape (unat (r p)) (unat (n p) * unat (d p)) V"
  shows "tangent_space_projection p Y (tangent_space_projection p Y V)
    = tangent_space_projection p Y V"
proof -
  let ?k = "unat (r p)" and ?c = "unat (d p)" and ?nn = "unat (n p)"
  let ?f = "\<lambda>i. tangent_block ?k (block ?c i Y) (block ?c i V)"
  from assms(1) have Y: "has_shape ?k (?nn * ?c) Y"
    and orth: "\<And>i. i < ?nn \<Longrightarrow> mtm (block ?c i Y) (block ?c i Y) = mident ?c"
    by (simp_all add: feasible_def list_all_iff)
  have Yi: "has_shape ?k ?c (block ?c i Y)" and Vi: "has_shape ?k ?c (block ?c i V)"
    if "i < ?nn" for i
    using that has_shape_block [OF Y] has_shape_block [OF assms(2)] by simp_all
  have len: "length (?f j) = ?c" if "j < ?nn" for j
    using has_rows_tangent_block [OF _ Vi [OF that]] Yi [OF that]
    by (simp add: has_shape_def)
  have "tangent_block ?k (block ?c i Y) (block ?c i (concat (map ?f [0..<?nn]))) = ?f i"
    if "i < ?nn" for i
    using block_concat [of ?nn ?f ?c i] len that
      tangent_block_idem [OF Yi [OF that] Vi [OF that] orth [OF that]]
    by simp
  then show ?thesis
    unfolding tangent_space_projection_def
    by (intro arg_cong [where f = concat] map_cong) simp_all
qed


lemma upt3: "[0..<3] = [0, 1, 2]" "[0..<2] = [0, 1]"
  by (simp_all add: upt_rec)

lemma stiefel3_dims: "unat (n stiefel3) = 3" "unat (d stiefel3) = 2" "unat (r stiefel3) = 3"
  by (simp_all add: stiefel3_def cycle3_def)

lemma feasible_stiefel3: "feasible stiefel3 stiefel3_Y"
  unfolding feasible_def stiefel3_dims
  by (simp add: upt3 has_shape_def has_rows_def stiefel3_Y_def block_def mtm_def mident_def dot_def)

lemma tsp_stiefel3: "tangent_space_projection stiefel3 stiefel3_Y stiefel3_V = stiefel3_W"
  unfolding tangent_space_projection_def stiefel3_dims
  by (simp add: upt3 stiefel3_Y_def stiefel3_V_def stiefel3_W_def block_def tangent_block_def
      mtm_def msym_def mtranspose_def mm_def mv_def msub_def vsub_def dot_def)

text \<open>
  At rank 3 the projection of \<open>stiefel3_V\<close> at \<open>stiefel3_Y\<close> is \<open>stiefel3_W\<close>, which differs
  from \<open>stiefel3_V\<close> and is left unchanged by a second projection.
\<close>

theorem tangent_space_projection_idempotent_witness:
  "feasible stiefel3 stiefel3_Y
   \<and> has_shape (unat (r stiefel3)) (unat (n stiefel3) * unat (d stiefel3)) stiefel3_V
   \<and> tangent_space_projection stiefel3 stiefel3_Y stiefel3_V = stiefel3_W
   \<and> stiefel3_W \<noteq> stiefel3_V
   \<and> tangent_space_projection stiefel3 stiefel3_Y stiefel3_W = stiefel3_W"
proof -
  have shape: "has_shape (unat (r stiefel3)) (unat (n stiefel3) * unat (d stiefel3)) stiefel3_V"
    unfolding stiefel3_dims by (simp add: has_shape_def has_rows_def stiefel3_V_def)
  have "stiefel3_W \<noteq> stiefel3_V" by (simp add: stiefel3_W_def stiefel3_V_def)
  then show ?thesis
    using tangent_space_projection_idempotent [OF feasible_stiefel3 shape]
      feasible_stiefel3 shape tsp_stiefel3
    by simp
qed

end
